theory Spec2Isabelle
  imports Main "HOL-Library.Word"
begin

section \<open>Data model of the authentication service\<close>

text \<open>
  The interfaces of \<^verbatim>\<open>src/services/authService.ts\<close>. A JavaScript string is a
  \<open>string\<close>; \<open>string | null\<close> and an optional field are a \<open>string option\<close>.
  Numbers are the integers the code computes with (\<open>Date.now()\<close> in milliseconds,
  \<open>expires_in\<close> in seconds); they are exact in JavaScript up to \<open>2^53\<close>.
  \<open>id_token\<close> is not a field of the interface: \<open>storeTokens\<close> reads it through
  \<open>(tokens as any).id_token\<close>.
\<close>

record TokenResponse =
  access_token :: string
  refresh_token :: string
  expires_in :: int
  token_type :: string
  scope :: string
  id_token :: "string option"

record UserInfo =
  sub :: string
  email :: string
  email_verified :: bool
  name :: string
  preferred_username :: string
  given_name :: "string option"
  family_name :: "string option"

record AuthError =
  error :: string
  error_description :: "string option"
  error_uri :: "string option"

text \<open>
  Every \<open>throw new Error(...)\<close> of the service is one constructor; \<open>message\<close>
  gives the text the source builds. \<open>Rejection\<close> is what a rejected \<open>fetch\<close> or
  \<open>response.json()\<close> promise carries, and \<open>QuotaExceededError\<close> what
  \<open>crypto.getRandomValues\<close> throws; the messages of these two are the platform's,
  and no operation of the service lets either of them through to its caller.
\<close>

datatype error =
    ProviderDenied string "string option"
  | MalformedCallback
  | CsrfMismatch
  | MissingVerifier
  | TokenExchangeFailed string
  | ExchangeError
  | UserInfoFailed string
  | UserInfoError
  | NoRefreshToken
  | RefreshInvalid
  | RefreshError
  | Rejection
  | QuotaExceededError

definition truthy :: "string option \<Rightarrow> bool" where
  "truthy v = (case v of None \<Rightarrow> False | Some s \<Rightarrow> s \<noteq> [])"

fun message :: "error \<Rightarrow> string" where
  "message (ProviderDenied e d) =
     ''Authentication failed: '' @ e @
       (case d of None \<Rightarrow> [] | Some s \<Rightarrow> (if s = [] then [] else '' - '' @ s))"
| "message MalformedCallback = ''Missing authorization code or state parameter''"
| "message CsrfMismatch = ''Invalid state parameter - possible CSRF attack''"
| "message MissingVerifier = ''Code verifier not found''"
| "message (TokenExchangeFailed d) = ''Token exchange failed: '' @ d"
| "message ExchangeError = ''Failed to exchange authorization code for tokens''"
| "message (UserInfoFailed s) = ''Failed to fetch user info: '' @ s"
| "message UserInfoError = ''Failed to fetch user information''"
| "message NoRefreshToken = ''No refresh token available''"
| "message RefreshInvalid = ''Refresh token is invalid''"
| "message RefreshError = ''Failed to refresh access token''"
| "message Rejection = ''Failed to fetch''"
| "message QuotaExceededError = ''The requested length exceeds 65536 bytes''"

subsection \<open>The network\<close>

text \<open>
  A request is what \<open>fetch\<close> is called with: the URL and the form parameters of a POST
  (the \<open>URLSearchParams\<close>, kept as a list of pairs), or the URL and the
  \<open>Authorization\<close> header of a GET.

  A reply is how the await of \<open>fetch\<close> ends. \<open>Rejected\<close>: the promise rejects (no HTTP
  response). \<open>Success b\<close>: a response with \<open>response.ok\<close>, where \<open>b\<close> is what
  \<open>response.json()\<close> resolves to, read at the interface type the source declares
  for it, and \<open>None\<close> when \<open>response.json()\<close> rejects. \<open>Failure st e\<close>: a response
  with \<open>response.ok\<close> false, \<open>response.statusText = st\<close> and the body \<open>e\<close>.
\<close>

datatype request =
    Post string "(string \<times> string) list"
  | Get string string

datatype ('a, 'e) reply =
    Rejected
  | Success "'a option"
  | Failure string "'e option"

record url =
  base :: string
  searchParams :: "(string \<times> string) list"

text \<open>
  The browser as the service sees it: \<open>sessionStorage\<close>, the query parameters of
  \<open>window.location.search\<close>, the origin, the clock, the last assignment to
  \<open>window.location.href\<close>, the requests sent so far, and the identity provider. The
  provider answers the request numbered \<open>n\<close> (the count of requests sent before it)
  with the milliseconds the answer takes and the reply.
\<close>

record world =
  storage :: "string \<rightharpoonup> string"
  location_search :: "(string \<times> string) list"
  location_origin :: string
  now :: int
  location_href :: "url option"
  requests :: "request list"
  token_endpoint :: "nat \<Rightarrow> request \<Rightarrow> nat \<times> (TokenResponse, AuthError) reply"
  userinfo_endpoint :: "nat \<Rightarrow> request \<Rightarrow> nat \<times> (UserInfo, unit) reply"
  revoke_endpoint :: "nat \<Rightarrow> request \<Rightarrow> nat \<times> (unit, unit) reply"

text \<open>
  \<open>sessionStorage\<close>. \<open>setItem\<close> is the write into a store that accepts it: a
  write the browser refuses (a \<open>QuotaExceededError\<close> of a full store) is not
  modelled, and neither is a \<open>history.replaceState\<close> the browser refuses. So the
  model of an operation has the failures of its guards and of its requests, and no
  property below speaks of a failure after a write.
\<close>

definition getItem :: "world \<Rightarrow> string \<Rightarrow> string option" where
  "getItem w k = storage w k"

definition setItem :: "world \<Rightarrow> string \<Rightarrow> string \<Rightarrow> world" where
  "setItem w k v = w\<lparr>storage := (storage w)(k \<mapsto> v)\<rparr>"

definition removeItem :: "world \<Rightarrow> string \<Rightarrow> world" where
  "removeItem w k = w\<lparr>storage := (storage w)(k := None)\<rparr>"

text \<open>\<open>URLSearchParams.get\<close>: the first value of the name, or null.\<close>

definition urlParams_get :: "world \<Rightarrow> string \<Rightarrow> string option" where
  "urlParams_get w k = map_of (location_search w) k"

definition keycloakUrl :: string where
  "keycloakUrl = ''https://oneid.ticket-bangla.com''"

definition realm :: string where
  "realm = ''oneid''"

definition clientId :: string where
  "clientId = ''react-client''"

definition redirectUri :: "world \<Rightarrow> string" where
  "redirectUri w = location_origin w @ ''/callback''"

definition endpoint :: "string \<Rightarrow> string" where
  "endpoint p = keycloakUrl @ ''/realms/'' @ realm @ ''/protocol/openid-connect/'' @ p"

definition fetch_token :: "world \<Rightarrow> request \<Rightarrow> (TokenResponse, AuthError) reply \<times> world" where
  "fetch_token w r =
     (case token_endpoint w (length (requests w)) r of
        (d, rep) \<Rightarrow> (rep, w\<lparr>requests := requests w @ [r], now := now w + int d\<rparr>))"

definition fetch_userinfo :: "world \<Rightarrow> request \<Rightarrow> (UserInfo, unit) reply \<times> world" where
  "fetch_userinfo w r =
     (case userinfo_endpoint w (length (requests w)) r of
        (d, rep) \<Rightarrow> (rep, w\<lparr>requests := requests w @ [r], now := now w + int d\<rparr>))"

definition fetch_revoke :: "world \<Rightarrow> request \<Rightarrow> (unit, unit) reply \<times> world" where
  "fetch_revoke w r =
     (case revoke_endpoint w (length (requests w)) r of
        (d, rep) \<Rightarrow> (rep, w\<lparr>requests := requests w @ [r], now := now w + int d\<rparr>))"

subsection \<open>Numbers as strings\<close>

text \<open>
  \<open>storeTokens\<close> writes the expiry with \<open>Number.prototype.toString\<close> and
  \<open>isTokenExpired\<close> reads it back with \<open>parseInt\<close>. \<open>parseInt\<close> skips leading white
  space, reads a sign, takes radix 16 after \<open>0x\<close> or \<open>0X\<close> and radix 10 otherwise,
  and reads digits up to the first character that is not one; with no digit the result
  is NaN, here \<open>None\<close>.
\<close>

definition digit_char :: "nat \<Rightarrow> char" where
  "digit_char d =
     (if d = 0 then CHR ''0'' else if d = 1 then CHR ''1'' else if d = 2 then CHR ''2''
      else if d = 3 then CHR ''3'' else if d = 4 then CHR ''4'' else if d = 5 then CHR ''5''
      else if d = 6 then CHR ''6'' else if d = 7 then CHR ''7'' else if d = 8 then CHR ''8''
      else CHR ''9'')"

fun show_nat :: "nat \<Rightarrow> string" where
  "show_nat n = (if n < 10 then [digit_char n] else show_nat (n div 10) @ [digit_char (n mod 10)])"

declare show_nat.simps [simp del]

definition Number_toString :: "int \<Rightarrow> string" where
  "Number_toString n = (if n < 0 then CHR ''-'' # show_nat (nat (- n)) else show_nat (nat n))"

definition isWhiteSpace :: "char \<Rightarrow> bool" where
  "isWhiteSpace c = (c = CHR '' '' \<or> c = CHR 0x09 \<or> c = CHR 0x0A \<or> c = CHR 0x0B
     \<or> c = CHR 0x0C \<or> c = CHR 0x0D)"

text \<open>
  The value of a digit, by its code: \<open>0\<close> to \<open>9\<close>, and the letters \<open>a\<close> to
  \<open>f\<close> in either case for the values 10 to 15.
\<close>

definition digit_val :: "char \<Rightarrow> nat option" where
  "digit_val c =
     (let n = (of_char c :: nat)
      in if 48 \<le> n \<and> n \<le> 57 then Some (n - 48)
         else if 97 \<le> n \<and> n \<le> 102 then Some (n - 87)
         else if 65 \<le> n \<and> n \<le> 70 then Some (n - 55)
         else None)"

definition digit_in :: "nat \<Rightarrow> char \<Rightarrow> nat option" where
  "digit_in radix c =
     (case digit_val c of None \<Rightarrow> None | Some d \<Rightarrow> (if d < radix then Some d else None))"

fun parse_digits :: "nat \<Rightarrow> string \<Rightarrow> nat option \<Rightarrow> nat option" where
  "parse_digits radix [] acc = acc"
| "parse_digits radix (c # cs) acc =
     (case digit_in radix c of
        None \<Rightarrow> acc
      | Some d \<Rightarrow>
          parse_digits radix cs (Some (case acc of None \<Rightarrow> d | Some a \<Rightarrow> a * radix + d)))"

definition strip_sign :: "string \<Rightarrow> int \<times> string" where
  "strip_sign s =
     (case s of
        [] \<Rightarrow> (1, s)
      | c # r \<Rightarrow> (if c = CHR ''-'' then (- 1, r) else if c = CHR ''+'' then (1, r) else (1, s)))"

definition strip_prefix :: "string \<Rightarrow> nat \<times> string" where
  "strip_prefix s =
     (case s of
        c # x # r \<Rightarrow>
          (if c = CHR ''0'' \<and> (x = CHR ''x'' \<or> x = CHR ''X'') then (16, r) else (10, s))
      | _ \<Rightarrow> (10, s))"

definition parseInt :: "string \<Rightarrow> int option" where
  "parseInt s =
     (case strip_sign (dropWhile isWhiteSpace s) of
        (sign, s2) \<Rightarrow>
          (case strip_prefix s2 of
             (radix, s3) \<Rightarrow>
               (case parse_digits radix s3 None of
                  None \<Rightarrow> None
                | Some v \<Rightarrow> Some (sign * int v))))"

subsection \<open>Token storage\<close>

definition storeTokens :: "world \<Rightarrow> TokenResponse \<Rightarrow> world" where
  "storeTokens w tokens =
     (let w1 = setItem w ''access_token'' (access_token tokens);
          w2 = setItem w1 ''refresh_token'' (refresh_token tokens);
          w3 = setItem w2 ''token_expires_at''
                 (Number_toString (now w2 + expires_in tokens * 1000))
      in (case id_token tokens of
            None \<Rightarrow> w3
          | Some t \<Rightarrow> (if t = [] then w3 else setItem w3 ''id_token'' t)))"

definition getStoredAccessToken :: "world \<Rightarrow> string option" where
  "getStoredAccessToken w = getItem w ''access_token''"

definition getStoredRefreshToken :: "world \<Rightarrow> string option" where
  "getStoredRefreshToken w = getItem w ''refresh_token''"

definition clearTokens :: "world \<Rightarrow> world" where
  "clearTokens w =
     removeItem (removeItem (removeItem w ''access_token'') ''refresh_token'') ''token_expires_at''"

text \<open>A comparison with NaN is false, so an expiry that does not parse is not expired.\<close>

definition isTokenExpired :: "world \<Rightarrow> bool" where
  "isTokenExpired w =
     (case getItem w ''token_expires_at'' of
        None \<Rightarrow> True
      | Some expiresAt \<Rightarrow>
          (if expiresAt = [] then True
           else (case parseInt expiresAt of
                   None \<Rightarrow> False
                 | Some e \<Rightarrow> now w > e - 30000)))"

section \<open>The service's operations\<close>

text \<open>
  An operation takes the world and returns its outcome with the world it leaves:
  \<open>Inl e\<close> when the promise rejects with \<open>e\<close>, \<open>Inr v\<close> when it resolves to \<open>v\<close>.
  \<open>rethrow e\<close> is a \<open>catch\<close> block that logs what it caught and throws \<open>e\<close> in
  its place; console output is not part of the model.
\<close>

definition rethrow :: "error \<Rightarrow> error + 'a \<Rightarrow> error + 'a" where
  "rethrow e r = (case r of Inl _ \<Rightarrow> Inl e | Inr v \<Rightarrow> Inr v)"

text \<open>\<open>String(v)\<close> of a \<open>string | null\<close>, as a template literal converts it.\<close>

definition String_of :: "string option \<Rightarrow> string" where
  "String_of v = (case v of None \<Rightarrow> ''null'' | Some s \<Rightarrow> s)"

subsection \<open>exchangeCodeForTokens\<close>

text \<open>Up to the call of \<open>fetch\<close>: the verifier is read and the form is built.\<close>

definition exchange_request :: "world \<Rightarrow> string \<Rightarrow> error + request" where
  "exchange_request w code =
     (let codeVerifier = getItem w ''code_verifier''
      in if \<not> truthy codeVerifier then Inl MissingVerifier
         else Inr (Post (endpoint ''token'')
                [(''grant_type'', ''authorization_code''),
                 (''client_id'', clientId),
                 (''code'', code),
                 (''redirect_uri'', redirectUri w),
                 (''code_verifier'', String_of codeVerifier)]))"

text \<open>
  \<open>errorData.error_description || response.statusText\<close>, where \<open>errorData\<close> is
  \<open>{}\<close> when the body is not JSON.
\<close>

definition error_text :: "AuthError option \<Rightarrow> string \<Rightarrow> string" where
  "error_text errorData st =
     (case errorData of
        None \<Rightarrow> st
      | Some a \<Rightarrow> (if truthy (error_description a) then String_of (error_description a) else st))"

text \<open>The \<open>try\<close> block, from the settled \<open>fetch\<close> on.\<close>

definition exchange_try :: "(TokenResponse, AuthError) reply \<Rightarrow> error + TokenResponse" where
  "exchange_try rep =
     (case rep of
        Rejected \<Rightarrow> Inl Rejection
      | Failure st errorData \<Rightarrow> Inl (TokenExchangeFailed (error_text errorData st))
      | Success None \<Rightarrow> Inl Rejection
      | Success (Some tokens) \<Rightarrow> Inr tokens)"

definition exchangeCodeForTokens :: "world \<Rightarrow> string \<Rightarrow> (error + TokenResponse) \<times> world" where
  "exchangeCodeForTokens w code =
     (case exchange_request w code of
        Inl e \<Rightarrow> (Inl e, w)
      | Inr req \<Rightarrow>
          (case fetch_token w req of
             (rep, w1) \<Rightarrow> (rethrow ExchangeError (exchange_try rep), w1)))"

subsection \<open>getUserInfo\<close>

definition userinfo_try :: "(UserInfo, unit) reply \<Rightarrow> error + UserInfo" where
  "userinfo_try rep =
     (case rep of
        Rejected \<Rightarrow> Inl Rejection
      | Failure st _ \<Rightarrow> Inl (UserInfoFailed st)
      | Success None \<Rightarrow> Inl Rejection
      | Success (Some userInfo) \<Rightarrow> Inr userInfo)"

definition getUserInfo :: "world \<Rightarrow> string \<Rightarrow> (error + UserInfo) \<times> world" where
  "getUserInfo w accessToken =
     (case fetch_userinfo w (Get (endpoint ''userinfo'') (''Bearer '' @ accessToken)) of
        (rep, w1) \<Rightarrow> (rethrow UserInfoError (userinfo_try rep), w1))"

subsection \<open>handleCallback\<close>

text \<open>The checks on the query parameters and the stored state, which give the code.\<close>

definition callback_code :: "world \<Rightarrow> error + string" where
  "callback_code w =
     (let code = urlParams_get w ''code'';
          state = urlParams_get w ''state'';
          error = urlParams_get w ''error''
      in if truthy error
         then Inl (ProviderDenied (String_of error) (urlParams_get w ''error_description''))
         else if \<not> truthy code \<or> \<not> truthy state then Inl MalformedCallback
         else if getItem w ''oauth_state'' \<noteq> state then Inl CsrfMismatch
         else Inr (String_of code))"

definition handleCallback :: "world \<Rightarrow> (error + TokenResponse \<times> UserInfo) \<times> world" where
  "handleCallback w =
     (case callback_code w of
        Inl e \<Rightarrow> (Inl e, w)
      | Inr code \<Rightarrow>
          (case exchangeCodeForTokens w code of
             (Inl e, w1) \<Rightarrow> (Inl e, w1)
           | (Inr tokens, w1) \<Rightarrow>
               (case getUserInfo w1 (access_token tokens) of
                  (Inl e, w2) \<Rightarrow> (Inl e, w2)
                | (Inr userInfo, w2) \<Rightarrow>
                    (let w3 = removeItem w2 ''code_verifier'';
                         w4 = removeItem w3 ''oauth_state'';
                         w5 = storeTokens w4 tokens
                     in (Inr (tokens, userInfo), w5\<lparr>location_search := []\<rparr>)))))"

text \<open>
  The part of \<open>handleCallback\<close> that runs before its first \<open>await\<close> suspends it: the
  checks, and the token request handed to \<open>fetch\<close>. A second call that starts while
  the first is suspended there finds the world this leaves.
\<close>

definition handleCallback_begin :: "world \<Rightarrow> error + world" where
  "handleCallback_begin w =
     (case callback_code w of
        Inl e \<Rightarrow> Inl e
      | Inr code \<Rightarrow>
          (case exchange_request w code of
             Inl e \<Rightarrow> Inl e
           | Inr req \<Rightarrow> Inr (w\<lparr>requests := requests w @ [req]\<rparr>)))"

subsection \<open>refreshToken\<close>

text \<open>
  The form of the refresh request, and the \<open>try\<close> block from the settled
  \<open>fetch\<close> on; its \<open>catch\<close> block replaces whatever the block throws.
\<close>

definition refresh_try ::
  "(TokenResponse, AuthError) reply \<Rightarrow> world \<Rightarrow> (error + TokenResponse) \<times> world" where
  "refresh_try rep w =
     (case rep of
        Rejected \<Rightarrow> (Inl Rejection, w)
      | Failure _ _ \<Rightarrow> (Inl RefreshInvalid, clearTokens w)
      | Success None \<Rightarrow> (Inl Rejection, w)
      | Success (Some tokens) \<Rightarrow> (Inr tokens, storeTokens w tokens))"

definition refresh_request :: "string \<Rightarrow> request" where
  "refresh_request refreshToken =
     Post (endpoint ''token'')
       [(''grant_type'', ''refresh_token''),
        (''client_id'', clientId),
        (''refresh_token'', refreshToken)]"

definition refreshToken :: "world \<Rightarrow> (error + TokenResponse) \<times> world" where
  "refreshToken w =
     (let refreshToken = getStoredRefreshToken w
      in if \<not> truthy refreshToken then (Inl NoRefreshToken, w)
         else (case fetch_token w (refresh_request (String_of refreshToken)) of
                 (rep, w1) \<Rightarrow>
                   (case refresh_try rep w1 of
                      (r, w2) \<Rightarrow> (rethrow RefreshError r, w2))))"

subsection \<open>logout\<close>

text \<open>
  The reply to the revoke request is not read, and a rejected \<open>fetch\<close> is caught and
  logged, so only the request and the time it takes are left of it.
\<close>

definition logout :: "world \<Rightarrow> world" where
  "logout w =
     (let refreshToken = getStoredRefreshToken w;
          idToken = getItem w ''id_token'';
          w1 = (if truthy refreshToken
                then snd (fetch_revoke w (Post (endpoint ''revoke'')
                       [(''client_id'', clientId),
                        (''refresh_token'', String_of refreshToken)]))
                else w);
          w2 = clearTokens w1;
          logoutUrl = \<lparr>base = endpoint ''logout'',
             searchParams =
               (if truthy idToken then [(''id_token_hint'', String_of idToken)] else []) @
               [(''post_logout_redirect_uri'', location_origin w2)]\<rparr>
      in w2\<lparr>location_href := Some logoutUrl\<rparr>)"

subsection \<open>getCurrentUser\<close>

definition getCurrentUser_fetch :: "world \<Rightarrow> (error + UserInfo option) \<times> world" where
  "getCurrentUser_fetch w =
     (let newAccessToken = getStoredAccessToken w
      in if \<not> truthy newAccessToken then (Inr None, w)
         else (case getUserInfo w (String_of newAccessToken) of
                 (Inl e, w1) \<Rightarrow> (Inl e, w1)
               | (Inr userInfo, w1) \<Rightarrow> (Inr (Some userInfo), w1)))"

text \<open>The \<open>try\<close> block.\<close>

definition getCurrentUser_try :: "world \<Rightarrow> (error + UserInfo option) \<times> world" where
  "getCurrentUser_try w =
     (let accessToken = getStoredAccessToken w
      in if \<not> truthy accessToken then (Inr None, w)
         else if isTokenExpired w
         then (case refreshToken w of
                 (Inl e, w1) \<Rightarrow> (Inl e, w1)
               | (Inr _, w1) \<Rightarrow> getCurrentUser_fetch w1)
         else getCurrentUser_fetch w)"

text \<open>The \<open>catch\<close> block returns null for whatever was thrown.\<close>

definition getCurrentUser :: "world \<Rightarrow> (error + UserInfo option) \<times> world" where
  "getCurrentUser w =
     (case getCurrentUser_try w of
        (Inl _, w1) \<Rightarrow> (Inr None, w1)
      | (Inr r, w1) \<Rightarrow> (Inr r, w1))"

section \<open>The callback component\<close>

text \<open>
  \<^verbatim>\<open>src/components/Callback.tsx\<close>: the \<open>hasRun\<close> ref, the \<open>error\<close> and
  \<open>isProcessing\<close> states and the route the component navigates to. \<open>useEffect\<close> is
  one run of the effect together with the asynchronous function it starts, followed to
  its end; \<open>useEffect_begin\<close> is the same run up to the point where that function is
  first suspended. The effect may run again at any later moment. The three seconds
  the component waits before it navigates to \<open>/login\<close> are not modelled.
\<close>

record callback =
  hasRun :: bool
  errorState :: "string option"
  isProcessing :: bool
  navigate :: "string option"

definition useEffect :: "callback \<Rightarrow> world \<Rightarrow> callback \<times> world" where
  "useEffect c w =
     (if hasRun c then (c, w)
      else (let c1 = c\<lparr>hasRun := True\<rparr>;
                c2 = c1\<lparr>isProcessing := True\<rparr>
            in (case handleCallback w of
                  (Inr _, w1) \<Rightarrow>
                    (c2\<lparr>navigate := Some ''/dashboard'', isProcessing := False\<rparr>, w1)
                | (Inl e, w1) \<Rightarrow>
                    (c2\<lparr>errorState := Some (message e), navigate := Some ''/login'',
                        isProcessing := False\<rparr>, w1))))"

definition useEffect_begin :: "callback \<Rightarrow> world \<Rightarrow> callback \<times> world" where
  "useEffect_begin c w =
     (if hasRun c then (c, w)
      else (let c1 = c\<lparr>hasRun := True\<rparr>;
                c2 = c1\<lparr>isProcessing := True\<rparr>
            in (case handleCallback_begin w of
                  Inl _ \<Rightarrow> (c2, w)
                | Inr w1 \<Rightarrow> (c2, w1))))"

text \<open>The token-exchange requests among the requests sent.\<close>

fun is_token_exchange :: "request \<Rightarrow> bool" where
  "is_token_exchange (Post u params) =
     (u = endpoint ''token'' \<and> map_of params ''grant_type'' = Some ''authorization_code'')"
| "is_token_exchange (Get u h) = False"

definition token_exchanges :: "world \<Rightarrow> nat" where
  "token_exchanges w = length (filter is_token_exchange (requests w))"

section \<open>The PKCE generator\<close>

text \<open>
  \<open>generateCodeVerifier\<close> of \<^verbatim>\<open>src/utils/pkce.ts\<close>, as the integration guide
  gives it. The random source is the sequence \<open>rng\<close> of bytes that
  \<open>crypto.getRandomValues\<close> writes into the array; \<open>getRandomValues\<close> throws a
  \<open>QuotaExceededError\<close> for an array of more than 65536 bytes. The requested length
  is an integer that is not negative, a natural number here. The constructor
  \<open>new Uint8Array(length)\<close> accepts every length up to 65536 and more; the
  \<open>RangeError\<close> it throws for a length beyond what the engine allocates is not
  modelled, so the properties below speak of the lengths up to 65536 and of the first
  length past them.
\<close>

definition charset :: string where
  "charset = ''ABCDEFGHIJKLMNOPQRSTUVWXYZabcdefghijklmnopqrstuvwxyz0123456789-._~''"

definition charAt :: "string \<Rightarrow> nat \<Rightarrow> string" where
  "charAt s i = (if i < length s then [s ! i] else [])"

definition getRandomValues :: "(nat \<Rightarrow> 8 word) \<Rightarrow> nat \<Rightarrow> error + 8 word list" where
  "getRandomValues rng n = (if n > 65536 then Inl QuotaExceededError else Inr (map rng [0..<n]))"

text \<open>
  The \<open>for\<close> loop. Reading a typed array past its end gives \<open>undefined\<close>, whose
  remainder is NaN, and \<open>charAt(NaN)\<close> is the first character.
\<close>

function verifier_loop :: "nat \<Rightarrow> nat \<Rightarrow> 8 word list \<Rightarrow> string \<Rightarrow> string" where
  "verifier_loop i len randomValues result =
     (if i < len
      then verifier_loop (i + 1) len randomValues
             (result @ charAt charset
                (if i < length randomValues then unat (randomValues ! i) mod length charset
                 else 0))
      else result)"
  by pat_completeness auto
termination
  by (relation "measure (\<lambda>(i, len, randomValues, result). len - i)") auto

declare verifier_loop.simps [simp del]

definition generateCodeVerifier :: "(nat \<Rightarrow> 8 word) \<Rightarrow> nat \<Rightarrow> error + string" where
  "generateCodeVerifier rng len =
     (case getRandomValues rng len of
        Inl e \<Rightarrow> Inl e
      | Inr randomValues \<Rightarrow> Inr (verifier_loop 0 len randomValues []))"

definition generateCodeVerifier_default :: "(nat \<Rightarrow> 8 word) \<Rightarrow> error + string" where
  "generateCodeVerifier_default rng = generateCodeVerifier rng 128"

text \<open>The unreserved characters \<open>[A-Za-z0-9-._~]\<close>, by their codes.\<close>

definition unreserved :: "char \<Rightarrow> bool" where
  "unreserved c =
     (let n = (of_char c :: nat)
      in (65 \<le> n \<and> n \<le> 90) \<or> (97 \<le> n \<and> n \<le> 122) \<or> (48 \<le> n \<and> n \<le> 57)
         \<or> n = 45 \<or> n = 46 \<or> n = 95 \<or> n = 126)"

section \<open>Concrete worlds\<close>

text \<open>
  The worlds the properties below are evaluated on: a tab with nothing stored and a
  provider that cannot be reached, a provider that grants, a provider that refuses, the
  callback of a login in flight, and a stored session.
\<close>

definition tokens0 :: TokenResponse where
  "tokens0 = \<lparr>access_token = ''at1'', refresh_token = ''rt1'', expires_in = 300,
     token_type = ''Bearer'', scope = ''openid email profile'', id_token = Some ''idtok123''\<rparr>"

definition user0 :: UserInfo where
  "user0 = \<lparr>sub = ''u-1'', email = ''a@app.example'', email_verified = True, name = ''A B'',
     preferred_username = ''ab'', given_name = Some ''A'', family_name = Some ''B''\<rparr>"

definition invalid_grant :: AuthError where
  "invalid_grant = \<lparr>error = ''invalid_grant'', error_description = Some ''Code not valid'',
     error_uri = None\<rparr>"

definition unreachable :: world where
  "unreachable = \<lparr>storage = Map.empty, location_search = [],
     location_origin = ''https://app.example'', now = 1700000000000, location_href = None,
     requests = [],
     token_endpoint = (\<lambda>n r. (0, Rejected)),
     userinfo_endpoint = (\<lambda>n r. (0, Rejected)),
     revoke_endpoint = (\<lambda>n r. (0, Rejected))\<rparr>"

definition granting :: world where
  "granting = unreachable\<lparr>
     token_endpoint := (\<lambda>n r. (120, Success (Some tokens0))),
     userinfo_endpoint := (\<lambda>n r. (80, Success (Some user0))),
     revoke_endpoint := (\<lambda>n r. (40, Success (Some ())))\<rparr>"

definition refusing :: world where
  "refusing = unreachable\<lparr>
     token_endpoint := (\<lambda>n r. (50, Failure ''Bad Request'' (Some invalid_grant))),
     userinfo_endpoint := (\<lambda>n r. (50, Failure ''Unauthorized'' None)),
     revoke_endpoint := (\<lambda>n r. (50, Failure ''Bad Request'' None))\<rparr>"

definition login_in_flight :: "string \<rightharpoonup> string" where
  "login_in_flight = [''code_verifier'' \<mapsto> ''verifier1'', ''oauth_state'' \<mapsto> ''abc'']"

definition callback_granted :: world where
  "callback_granted = granting\<lparr>storage := login_in_flight,
     location_search := [(''code'', ''c1''), (''state'', ''abc'')]\<rparr>"

definition callback_refused :: world where
  "callback_refused = refusing\<lparr>storage := login_in_flight,
     location_search := [(''code'', ''c1''), (''state'', ''abc'')]\<rparr>"

definition callback_forged :: world where
  "callback_forged = granting\<lparr>storage := login_in_flight,
     location_search := [(''code'', ''c1''), (''state'', ''xyz'')]\<rparr>"

definition callback_profile_refused :: world where
  "callback_profile_refused = callback_granted\<lparr>
     userinfo_endpoint := (\<lambda>n r. (50, Failure ''Unauthorized'' None))\<rparr>"

definition callback_error_and_code :: world where
  "callback_error_and_code = granting\<lparr>storage := login_in_flight,
     location_search := [(''error'', ''access_denied''), (''code'', ''c1''), (''state'', ''xyz'')]\<rparr>"

definition session :: "string \<rightharpoonup> string" where
  "session = [''access_token'' \<mapsto> ''at0'', ''refresh_token'' \<mapsto> ''rt0'',
     ''token_expires_at'' \<mapsto> ''1700000300000'', ''id_token'' \<mapsto> ''idtok123'']"

definition session_granted :: world where
  "session_granted = granting\<lparr>storage := session\<rparr>"

definition session_refused :: world where
  "session_refused = refusing\<lparr>storage := session, now := 1700000400000\<rparr>"

definition session_unreachable :: world where
  "session_unreachable = unreachable\<lparr>storage := session, now := 1700000400000\<rparr>"

definition mounted :: callback where
  "mounted = \<lparr>hasRun = False, errorState = None, isProcessing = True, navigate = None\<rparr>"

section \<open>Properties\<close>

subsection \<open>Numbers written and read back\<close>

lemma digit_in_digit_char: "d < 10 \<Longrightarrow> digit_in 10 (digit_char d) = Some d"
  by (simp add: digit_in_def digit_val_def digit_char_def)

lemma show_nat_digits: "c \<in> set (show_nat n) \<Longrightarrow> \<exists>d<10. c = digit_char d"
proof (induction n arbitrary: c rule: show_nat.induct)
  case (1 n)
  show ?case
  proof (cases "n < 10")
    case True
    with "1.prems" show ?thesis by (auto simp: show_nat.simps [of n])
  next
    case False
    with "1.prems" have "c \<in> set (show_nat (n div 10)) \<or> c = digit_char (n mod 10)"
      by (auto simp: show_nat.simps [of n])
    then show ?thesis
    proof
      assume "c \<in> set (show_nat (n div 10))"
      with False "1.IH" show ?thesis by blast
    next
      assume "c = digit_char (n mod 10)"
      moreover have "n mod 10 < 10" by simp
      ultimately show ?thesis by blast
    qed
  qed
qed

lemma parse_digits_append:
  "\<forall>c\<in>set xs. digit_in r c \<noteq> None \<Longrightarrow>
     parse_digits r (xs @ ys) acc = parse_digits r ys (parse_digits r xs acc)"
  by (induction xs arbitrary: acc) (auto split: option.splits)

lemma show_nat_all_digits: "\<forall>c\<in>set (show_nat n). digit_in 10 c \<noteq> None"
  using show_nat_digits digit_in_digit_char by fastforce

lemma parse_digits_show_nat: "parse_digits 10 (show_nat n) None = Some n"
proof (induction n rule: show_nat.induct)
  case (1 n)
  show ?case
  proof (cases "n < 10")
    case True
    then show ?thesis by (simp add: show_nat.simps [of n] digit_in_digit_char)
  next
    case False
    have d: "digit_in 10 (digit_char (n mod 10)) = Some (n mod 10)"
      by (simp add: digit_in_digit_char)
    from False have "parse_digits 10 (show_nat n) None =
      parse_digits 10 [digit_char (n mod 10)] (parse_digits 10 (show_nat (n div 10)) None)"
      by (simp add: show_nat.simps [of n] parse_digits_append show_nat_all_digits)
    also have "\<dots> = Some (n div 10 * 10 + n mod 10)"
      using False "1.IH" d by simp
    finally show ?thesis by simp
  qed
qed

lemma show_nat_not_Nil: "show_nat n \<noteq> []"
  by (simp add: show_nat.simps [of n])

lemma digit_char_plain:
  "d < 10 \<Longrightarrow> \<not> isWhiteSpace (digit_char d) \<and> digit_char d \<noteq> CHR ''-'' \<and>
     digit_char d \<noteq> CHR ''+'' \<and> digit_char d \<noteq> CHR ''x'' \<and> digit_char d \<noteq> CHR ''X''"
  by (simp add: digit_char_def isWhiteSpace_def)

lemma show_nat_plain:
  "c \<in> set (show_nat n) \<Longrightarrow> \<not> isWhiteSpace c \<and> c \<noteq> CHR ''-'' \<and> c \<noteq> CHR ''+'' \<and>
     c \<noteq> CHR ''x'' \<and> c \<noteq> CHR ''X''"
proof -
  assume "c \<in> set (show_nat n)"
  then obtain d where "d < 10" "c = digit_char d" using show_nat_digits by blast
  then show ?thesis using digit_char_plain [of d] by simp
qed

lemma strip_prefix_show_nat: "strip_prefix (show_nat n) = (10, show_nat n)"
proof (cases "show_nat n")
  case Nil
  then show ?thesis by (simp add: strip_prefix_def)
next
  case (Cons c r)
  show ?thesis
  proof (cases r)
    case Nil
    with Cons show ?thesis by (simp add: strip_prefix_def)
  next
    case (Cons x r')
    with \<open>show_nat n = c # r\<close> have "x \<in> set (show_nat n)" by simp
    then have "x \<noteq> CHR ''x'' \<and> x \<noteq> CHR ''X''" using show_nat_plain by blast
    with Cons \<open>show_nat n = c # r\<close> show ?thesis by (simp add: strip_prefix_def)
  qed
qed

lemma strip_sign_show_nat: "strip_sign (show_nat n) = (1, show_nat n)"
proof (cases "show_nat n")
  case Nil
  then show ?thesis by (simp add: strip_sign_def)
next
  case (Cons c r)
  then have "c \<in> set (show_nat n)" by simp
  then have "c \<noteq> CHR ''-'' \<and> c \<noteq> CHR ''+''" using show_nat_plain by blast
  with Cons show ?thesis by (simp add: strip_sign_def)
qed

lemma dropWhile_show_nat: "dropWhile isWhiteSpace (show_nat n) = show_nat n"
proof (cases "show_nat n")
  case Nil
  then show ?thesis by simp
next
  case (Cons c r)
  then have "c \<in> set (show_nat n)" by simp
  then have "\<not> isWhiteSpace c" using show_nat_plain by blast
  with Cons show ?thesis by simp
qed

lemma parseInt_show_nat: "parseInt (show_nat n) = Some (int n)"
  by (simp add: parseInt_def dropWhile_show_nat strip_sign_show_nat strip_prefix_show_nat
      parse_digits_show_nat)

lemma parseInt_minus_show_nat: "parseInt (CHR ''-'' # show_nat n) = Some (- int n)"
  by (simp add: parseInt_def isWhiteSpace_def strip_sign_def strip_prefix_show_nat
      parse_digits_show_nat)

lemma parseInt_Number_toString: "parseInt (Number_toString n) = Some n"
  by (simp add: Number_toString_def parseInt_show_nat parseInt_minus_show_nat)

lemma Number_toString_not_Nil: "Number_toString n \<noteq> []"
  by (simp add: Number_toString_def show_nat_not_Nil)


subsection \<open>What the operations leave unchanged\<close>

lemma expiry_storeTokens:
  "getItem (storeTokens w tokens) ''token_expires_at'' =
     Some (Number_toString (now w + expires_in tokens * 1000))"
  by (simp add: storeTokens_def getItem_def setItem_def Let_def split: option.splits)

lemma fetch_token_frame:
  "storage (snd (fetch_token w r)) = storage w"
  "location_search (snd (fetch_token w r)) = location_search w"
  "requests (snd (fetch_token w r)) = requests w @ [r]"
  by (simp_all add: fetch_token_def split: prod.splits)

lemma fetch_userinfo_frame:
  "storage (snd (fetch_userinfo w r)) = storage w"
  "location_search (snd (fetch_userinfo w r)) = location_search w"
  "requests (snd (fetch_userinfo w r)) = requests w @ [r]"
  by (simp_all add: fetch_userinfo_def split: prod.splits)

lemma exchange_storage: "storage (snd (exchangeCodeForTokens w code)) = storage w"
  using fetch_token_frame(1)
  by (auto simp: exchangeCodeForTokens_def split: sum.splits prod.splits) (metis snd_conv)

lemma exchange_requests:
  "requests (snd (exchangeCodeForTokens w code)) =
     (case exchange_request w code of Inl e \<Rightarrow> requests w | Inr req \<Rightarrow> requests w @ [req])"
  using fetch_token_frame(3)
  by (auto simp: exchangeCodeForTokens_def split: sum.splits prod.splits) (metis snd_conv)

lemma exchange_failed:
  "fst (exchangeCodeForTokens w code) = Inl e \<Longrightarrow> e = MissingVerifier \<or> e = ExchangeError"
  by (auto simp: exchangeCodeForTokens_def exchange_request_def rethrow_def Let_def
      split: sum.splits prod.splits if_splits)

lemma getUserInfo_storage: "storage (snd (getUserInfo w t)) = storage w"
  using fetch_userinfo_frame(1)
  by (auto simp: getUserInfo_def split: prod.splits) (metis snd_conv)

lemma getUserInfo_requests:
  "requests (snd (getUserInfo w t)) = requests w @ [Get (endpoint ''userinfo'') (''Bearer '' @ t)]"
  using fetch_userinfo_frame(3)
  by (auto simp: getUserInfo_def split: prod.splits) (metis snd_conv)

lemma handleCallback_guard:
  "callback_code w = Inl e \<Longrightarrow> handleCallback w = (Inl e, w)"
  by (simp add: handleCallback_def)

lemma handleCallback_exchange_failed:
  assumes "callback_code w = Inr code" and "fst (exchangeCodeForTokens w code) = Inl e"
  shows "fst (handleCallback w) = Inl e \<and> storage (snd (handleCallback w)) = storage w"
proof -
  obtain w1 where "exchangeCodeForTokens w code = (Inl e, w1)"
    using assms(2) by (cases "exchangeCodeForTokens w code") simp
  moreover from this have "storage w1 = storage w"
    using exchange_storage [of w code] by simp
  ultimately show ?thesis using assms(1) by (simp add: handleCallback_def)
qed

lemma handleCallback_userinfo_failed:
  assumes "callback_code w = Inr code"
    and "exchangeCodeForTokens w code = (Inr tokens, w1)"
    and "fst (getUserInfo w1 (access_token tokens)) = Inl e"
  shows "fst (handleCallback w) = Inl e \<and> storage (snd (handleCallback w)) = storage w"
proof -
  obtain w2 where u: "getUserInfo w1 (access_token tokens) = (Inl e, w2)"
    using assms(3) by (cases "getUserInfo w1 (access_token tokens)") simp
  have "storage w1 = storage w"
    using exchange_storage [of w code] assms(2) by simp
  moreover have "storage w2 = storage w1"
    using getUserInfo_storage [of w1 "access_token tokens"] u by simp
  ultimately show ?thesis using assms(1,2) u by (simp add: handleCallback_def)
qed

lemma handleCallback_done_storage:
  "fst (handleCallback w) = Inr r \<Longrightarrow>
     getItem (snd (handleCallback w)) ''code_verifier'' = None \<and>
     getItem (snd (handleCallback w)) ''oauth_state'' = None"
  by (auto simp: handleCallback_def Let_def storeTokens_def getItem_def setItem_def removeItem_def
      split: sum.splits prod.splits option.splits)

lemma token_exchanges_handleCallback:
  "token_exchanges (snd (handleCallback w)) \<le> Suc (token_exchanges w)"
proof (cases "callback_code w")
  case (Inl e)
  then show ?thesis by (simp add: handleCallback_def)
next
  case (Inr code)
  obtain r1 w1 where x: "exchangeCodeForTokens w code = (r1, w1)" by (cases "exchangeCodeForTokens w code")
  have q1: "token_exchanges w1 \<le> Suc (token_exchanges w)"
    using exchange_requests [of w code] x
    by (simp add: token_exchanges_def split: sum.splits)
  show ?thesis
  proof (cases r1)
    case (Inl e)
    with Inr x q1 show ?thesis by (simp add: handleCallback_def)
  next
    case (Inr tokens)
    obtain r2 w2 where u: "getUserInfo w1 (access_token tokens) = (r2, w2)"
      by (cases "getUserInfo w1 (access_token tokens)")
    have q2: "token_exchanges w2 = token_exchanges w1"
      using getUserInfo_requests [of w1 "access_token tokens"] u
      by (simp add: token_exchanges_def)
    have q3: "\<And>w' t. requests (storeTokens w' t) = requests w'"
      by (simp add: storeTokens_def setItem_def Let_def split: option.splits)
    show ?thesis
      using \<open>callback_code w = Inr code\<close> x Inr u q1 q2 q3
      by (cases r2)
        (simp_all add: handleCallback_def Let_def token_exchanges_def removeItem_def)
  qed
qed

lemma handleCallback_begin_throws:
  "handleCallback_begin w = Inl e \<Longrightarrow> handleCallback w = (Inl e, w)"
  by (auto simp: handleCallback_begin_def handleCallback_def exchangeCodeForTokens_def
      split: sum.splits)

lemma handleCallback_begin_prefix:
  "handleCallback_begin w = Inr w1 \<Longrightarrow>
     \<exists>rest. requests (snd (handleCallback w)) = requests w1 @ rest"
proof -
  assume b: "handleCallback_begin w = Inr w1"
  then obtain code req where c: "callback_code w = Inr code"
    and r: "exchange_request w code = Inr req" and w1: "w1 = w\<lparr>requests := requests w @ [req]\<rparr>"
    by (auto simp: handleCallback_begin_def split: sum.splits)
  obtain r1 v1 where x: "exchangeCodeForTokens w code = (r1, v1)"
    by (cases "exchangeCodeForTokens w code")
  have q1: "requests v1 = requests w1"
    using exchange_requests [of w code] x r w1 by simp
  have q3: "\<And>w' t. requests (storeTokens w' t) = requests w'"
    by (simp add: storeTokens_def setItem_def Let_def split: option.splits)
  show ?thesis
  proof (cases r1)
    case (Inl e)
    with c x q1 show ?thesis by (simp add: handleCallback_def)
  next
    case (Inr tokens)
    obtain r2 v2 where u: "getUserInfo v1 (access_token tokens) = (r2, v2)"
      by (cases "getUserInfo v1 (access_token tokens)")
    have "requests v2 = requests w1 @ [Get (endpoint ''userinfo'') (''Bearer '' @ access_token tokens)]"
      using getUserInfo_requests [of v1 "access_token tokens"] u q1 by simp
    with c x Inr u q3 show ?thesis
      by (cases r2) (simp_all add: handleCallback_def Let_def removeItem_def)
  qed
qed

lemma clearTokens_storage:
  "getItem (clearTokens w) k =
     (if k = ''access_token'' \<or> k = ''refresh_token'' \<or> k = ''token_expires_at'' then None
      else getItem w k)"
  by (simp add: clearTokens_def getItem_def removeItem_def)

lemma logout_storage: "getItem (logout w) k = getItem (clearTokens w) k"
  by (simp add: logout_def Let_def getItem_def clearTokens_def removeItem_def fetch_revoke_def
      split: prod.splits)

lemma logout_keeps_id_token: "getItem (logout w) ''id_token'' = getItem w ''id_token''"
  by (simp add: logout_storage clearTokens_storage)

lemma refreshToken_absent:
  "\<not> truthy (getStoredRefreshToken w) \<Longrightarrow> refreshToken w = (Inl NoRefreshToken, w)"
  by (simp add: refreshToken_def)

lemma refreshToken_refused:
  assumes "getStoredRefreshToken w = Some rt" and "rt \<noteq> []"
    and "fst (fetch_token w (refresh_request rt)) = Failure st e"
  shows "fst (refreshToken w) = Inl RefreshError \<and>
    getItem (snd (refreshToken w)) ''access_token'' = None \<and>
    getItem (snd (refreshToken w)) ''refresh_token'' = None \<and>
    getItem (snd (refreshToken w)) ''token_expires_at'' = None"
  using assms
  by (auto simp: refreshToken_def Let_def truthy_def String_of_def refresh_try_def rethrow_def
      clearTokens_storage split: prod.splits)

lemma exchange_refused:
  assumes "exchange_request w code = Inr req"
    and "fst (fetch_token w req) = Failure st errorData"
  shows "exchange_try (Failure st errorData) = Inl (TokenExchangeFailed (error_text errorData st))"
    and "fst (exchangeCodeForTokens w code) = Inl ExchangeError"
  using assms
  by (auto simp: exchangeCodeForTokens_def exchange_try_def rethrow_def split: prod.splits)

lemma storeTokens_adds: "getItem (storeTokens w t) k = None \<Longrightarrow> getItem w k = None"
  by (simp add: storeTokens_def getItem_def setItem_def Let_def split: option.splits if_splits)

lemma charset_unreserved: "\<forall>c\<in>set charset. unreserved c"
  by (simp add: charset_def unreserved_def)

lemma length_charset: "length charset = 66"
  by (simp add: charset_def)

lemma charAt_charset:
  "\<exists>c. charAt charset (k mod length charset) = [c] \<and> unreserved c"
proof -
  have "k mod length charset < length charset" by (simp add: length_charset)
  then show ?thesis using charset_unreserved by (simp add: charAt_def)
qed

lemma verifier_loop_length:
  "length (verifier_loop i len rv res) = length res + (len - i)"
proof (induction i len rv res rule: verifier_loop.induct)
  case (1 i len rv res)
  show ?case
  proof (cases "i < len")
    case True
    let ?k = "if i < length rv then unat (rv ! i) mod length charset else 0"
    have "?k = ?k mod length charset" by (simp add: length_charset)
    then obtain c where "charAt charset ?k = [c]" using charAt_charset [of ?k] by metis
    with True "1.IH" show ?thesis by (simp add: verifier_loop.simps [of i len rv res])
  next
    case False
    then show ?thesis by (simp add: verifier_loop.simps [of i len rv res])
  qed
qed

lemma verifier_loop_unreserved:
  "\<forall>c\<in>set res. unreserved c \<Longrightarrow> \<forall>c\<in>set (verifier_loop i len rv res). unreserved c"
proof (induction i len rv res rule: verifier_loop.induct)
  case (1 i len rv res)
  show ?case
  proof (cases "i < len")
    case True
    let ?k = "if i < length rv then unat (rv ! i) mod length charset else 0"
    have "?k = ?k mod length charset" by (simp add: length_charset)
    then obtain c where c: "charAt charset ?k = [c]" "unreserved c"
      using charAt_charset [of ?k] by metis
    with "1.prems" have "\<forall>x\<in>set (res @ charAt charset ?k). unreserved x" by simp
    with True "1.IH" show ?thesis by (simp add: verifier_loop.simps [of i len rv res])
  next
    case False
    with "1.prems" show ?thesis by (simp add: verifier_loop.simps [of i len rv res])
  qed
qed

subsection \<open>Evaluation on the concrete worlds\<close>

lemmas worlds = unreachable_def granting_def refusing_def login_in_flight_def
  callback_granted_def callback_refused_def callback_forged_def callback_error_and_code_def
  callback_profile_refused_def
  session_def session_granted_def session_refused_def session_unreachable_def
  tokens0_def user0_def invalid_grant_def

lemmas ops = getItem_def setItem_def removeItem_def urlParams_get_def truthy_def String_of_def
  callback_code_def exchange_request_def exchange_try_def exchangeCodeForTokens_def
  fetch_token_def fetch_userinfo_def fetch_revoke_def rethrow_def error_text_def
  userinfo_try_def getUserInfo_def handleCallback_def handleCallback_begin_def
  refresh_try_def refresh_request_def refreshToken_def logout_def clearTokens_def
  getStoredAccessToken_def getStoredRefreshToken_def storeTokens_def
  getCurrentUser_def getCurrentUser_try_def getCurrentUser_fetch_def Let_def

lemmas parsing = isTokenExpired_def parseInt_def strip_sign_def strip_prefix_def
  isWhiteSpace_def digit_in_def digit_val_def

subsection \<open>The callback\<close>

text \<open>
  C1, as the specification states it: a second call of \<open>handleCallback\<close> within one
  callback delivery, before or after the first has completed, sends no second
  token-exchange request, the guard being in the service. The service has no such guard.
  Two calls that both start before any reply arrives each send the token request; and
  when the provider refuses the first exchange, a second call made after the first has
  failed sends the code again. In both runs two token-exchange requests are sent.
\<close>

theorem handleCallback_no_latch:
  "(case handleCallback_begin callback_granted of
      Inl e \<Rightarrow> False
    | Inr w1 \<Rightarrow> (case handleCallback_begin w1 of
                  Inl e \<Rightarrow> False
                | Inr w2 \<Rightarrow> token_exchanges w2 = 2))
   \<and> token_exchanges (snd (handleCallback (snd (handleCallback callback_refused)))) = 2"
  by (simp add: worlds ops token_exchanges_def endpoint_def)

text \<open>
  C1, amended: the guard is the \<open>hasRun\<close> latch of the callback component. Once the
  effect of a component has started, a later run of the effect, in whatever world it
  finds (before or after the first \<open>handleCallback\<close> has completed), changes nothing
  and sends nothing; one run of the effect sends at most one token-exchange request, and
  so do two runs in a row.
\<close>

theorem callback_hasRun_latch:
  "useEffect_begin (fst (useEffect_begin c w)) w' = (fst (useEffect_begin c w), w') \<and>
   useEffect (fst (useEffect_begin c w)) w' = (fst (useEffect_begin c w), w') \<and>
   useEffect (fst (useEffect c w)) w' = (fst (useEffect c w), w') \<and>
   token_exchanges (snd (useEffect c w)) \<le> Suc (token_exchanges w) \<and>
   token_exchanges (snd (useEffect (fst (useEffect c w)) (snd (useEffect c w))))
     \<le> Suc (token_exchanges w)"
proof -
  have b: "hasRun (fst (useEffect_begin c w))"
    by (simp add: useEffect_begin_def Let_def split: sum.splits)
  have e: "hasRun (fst (useEffect c w))"
    by (simp add: useEffect_def Let_def split: sum.splits prod.splits)
  have n: "token_exchanges (snd (useEffect c w)) \<le> Suc (token_exchanges w)"
    using token_exchanges_handleCallback [of w]
    by (auto simp: useEffect_def Let_def split: sum.splits prod.splits)
  have i: "\<And>c' v. hasRun c' \<Longrightarrow> useEffect c' v = (c', v) \<and> useEffect_begin c' v = (c', v)"
    by (simp add: useEffect_def useEffect_begin_def)
  show ?thesis using b e n i by simp
qed

text \<open>
  C2, as the specification states it: a callback with a non-empty code and a non-empty
  state that differs from the stored one fails with \<open>CsrfMismatch\<close>. The error
  parameter is checked first: a callback that also carries a non-empty \<open>error\<close> fails
  with \<open>ProviderDenied\<close>.
\<close>

theorem handleCallback_error_before_state:
  "truthy (urlParams_get callback_error_and_code ''code'') \<and>
   truthy (urlParams_get callback_error_and_code ''state'') \<and>
   getItem callback_error_and_code ''oauth_state'' \<noteq> urlParams_get callback_error_and_code ''state'' \<and>
   fst (handleCallback callback_error_and_code) = Inl (ProviderDenied ''access_denied'' None) \<and>
   fst (handleCallback callback_error_and_code) \<noteq> Inl CsrfMismatch"
  by (simp add: worlds ops)

text \<open>
  C2, amended: for a callback with no (or an empty) \<open>error\<close> parameter, a non-empty
  code and a non-empty state, when the state differs from the stored one (or none is
  stored) \<open>handleCallback\<close> fails with \<open>CsrfMismatch\<close>, leaves the world as it was
  and sends no request.
\<close>

theorem handleCallback_csrf:
  assumes "\<not> truthy (urlParams_get w ''error'')"
    and "truthy (urlParams_get w ''code'')"
    and "truthy (urlParams_get w ''state'')"
    and "getItem w ''oauth_state'' \<noteq> urlParams_get w ''state''"
  shows "fst (handleCallback w) = Inl CsrfMismatch \<and> snd (handleCallback w) = w \<and>
    requests (snd (handleCallback w)) = requests w"
proof -
  from assms have "callback_code w = Inl CsrfMismatch"
    by (simp add: callback_code_def Let_def)
  then show ?thesis by (simp add: handleCallback_def)
qed

theorem handleCallback_csrf_witness:
  "\<not> truthy (urlParams_get callback_forged ''error'') \<and>
   truthy (urlParams_get callback_forged ''code'') \<and>
   truthy (urlParams_get callback_forged ''state'') \<and>
   getItem callback_forged ''oauth_state'' = Some ''abc'' \<and>
   urlParams_get callback_forged ''state'' = Some ''xyz'' \<and>
   fst (handleCallback callback_forged) = Inl CsrfMismatch \<and>
   requests (snd (handleCallback callback_forged)) = []"
proof -
  have h1: "\<not> truthy (urlParams_get callback_forged ''error'')"
    and h2: "truthy (urlParams_get callback_forged ''code'')"
    and h3: "truthy (urlParams_get callback_forged ''state'')"
    and h4: "getItem callback_forged ''oauth_state'' = Some ''abc''"
    and h5: "urlParams_get callback_forged ''state'' = Some ''xyz''"
    and h6: "requests callback_forged = []"
    by (simp_all add: worlds getItem_def urlParams_get_def truthy_def)
  from h4 h5 have "getItem callback_forged ''oauth_state'' \<noteq> urlParams_get callback_forged ''state''"
    by simp
  from handleCallback_csrf [OF h1 h2 h3 this] h1 h2 h3 h4 h5 h6 show ?thesis by simp
qed

text \<open>
  C3, as the specification states it: once the state comparison has passed, the stored
  verifier and state are deleted whether or not the exchange and the profile fetch
  succeed. When the provider refuses the exchange, both are still stored after
  \<open>handleCallback\<close> has failed.
\<close>

theorem handleCallback_keeps_verifier_on_failure:
  "callback_code callback_refused = Inr ''c1'' \<and>
   fst (handleCallback callback_refused) = Inl ExchangeError \<and>
   getItem (snd (handleCallback callback_refused)) ''code_verifier'' = Some ''verifier1'' \<and>
   getItem (snd (handleCallback callback_refused)) ''oauth_state'' = Some ''abc''"
  by (simp add: worlds ops)

text \<open>
  C3, amended: when \<open>handleCallback\<close> succeeds, the stored verifier and state are
  deleted by the time it returns; when the token exchange fails, or the fetch of the
  user's profile after it, \<open>handleCallback\<close> fails with that error and the session
  store is left as it was, so both are still stored.
\<close>

theorem handleCallback_cleanup:
  "(fst (handleCallback w) = Inr r \<longrightarrow>
      getItem (snd (handleCallback w)) ''code_verifier'' = None \<and>
      getItem (snd (handleCallback w)) ''oauth_state'' = None) \<and>
   (callback_code w = Inr code \<and> fst (exchangeCodeForTokens w code) = Inl e \<longrightarrow>
      fst (handleCallback w) = Inl e \<and> storage (snd (handleCallback w)) = storage w) \<and>
   (callback_code w = Inr code \<and> exchangeCodeForTokens w code = (Inr tokens, w1) \<and>
      fst (getUserInfo w1 (access_token tokens)) = Inl e' \<longrightarrow>
      fst (handleCallback w) = Inl e' \<and> storage (snd (handleCallback w)) = storage w)"
  using handleCallback_done_storage [of w r] handleCallback_exchange_failed [of w code e]
    handleCallback_userinfo_failed [of w code tokens w1 e']
  by blast

theorem handleCallback_cleanup_witness:
  "fst (handleCallback callback_granted) = Inr (tokens0, user0) \<and>
   getItem (snd (handleCallback callback_granted)) ''code_verifier'' = None \<and>
   getItem (snd (handleCallback callback_granted)) ''oauth_state'' = None \<and>
   callback_code callback_refused = Inr ''c1'' \<and>
   fst (exchangeCodeForTokens callback_refused ''c1'') = Inl ExchangeError \<and>
   fst (handleCallback callback_refused) = Inl ExchangeError \<and>
   storage (snd (handleCallback callback_refused)) = storage callback_refused \<and>
   getItem (snd (handleCallback callback_refused)) ''code_verifier'' = Some ''verifier1'' \<and>
   callback_code callback_profile_refused = Inr ''c1'' \<and>
   fst (exchangeCodeForTokens callback_profile_refused ''c1'') = Inr tokens0 \<and>
   fst (getUserInfo (snd (exchangeCodeForTokens callback_profile_refused ''c1''))
          (access_token tokens0)) = Inl UserInfoError \<and>
   fst (handleCallback callback_profile_refused) = Inl UserInfoError \<and>
   storage (snd (handleCallback callback_profile_refused)) = storage callback_profile_refused \<and>
   getItem (snd (handleCallback callback_profile_refused)) ''oauth_state'' = Some ''abc''"
proof -
  have g: "fst (handleCallback callback_granted) = Inr (tokens0, user0)"
    by (simp add: worlds ops)
  have c1: "callback_code callback_refused = Inr ''c1''"
    and x1: "fst (exchangeCodeForTokens callback_refused ''c1'') = Inl ExchangeError"
    and s1: "storage callback_refused = login_in_flight"
    by (simp_all add: worlds ops)
  have c2: "callback_code callback_profile_refused = Inr ''c1''"
    and x2: "fst (exchangeCodeForTokens callback_profile_refused ''c1'') = Inr tokens0"
    and u2: "fst (getUserInfo (snd (exchangeCodeForTokens callback_profile_refused ''c1''))
          (access_token tokens0)) = Inl UserInfoError"
    and s2: "storage callback_profile_refused = login_in_flight"
    by (simp_all add: worlds ops)
  from x2 have p2: "exchangeCodeForTokens callback_profile_refused ''c1'' =
      (Inr tokens0, snd (exchangeCodeForTokens callback_profile_refused ''c1''))"
    by (simp add: prod_eq_iff)
  have l: "login_in_flight ''code_verifier'' = Some ''verifier1''"
      "login_in_flight ''oauth_state'' = Some ''abc''"
    by (simp_all add: login_in_flight_def)
  from handleCallback_cleanup [of callback_granted "(tokens0, user0)" "''c1''" ExchangeError
      tokens0 callback_granted UserInfoError]
    handleCallback_cleanup [of callback_refused "(tokens0, user0)" "''c1''" ExchangeError
      tokens0 callback_refused UserInfoError]
    handleCallback_cleanup [of callback_profile_refused "(tokens0, user0)" "''c1''" ExchangeError
      tokens0 "snd (exchangeCodeForTokens callback_profile_refused ''c1'')" UserInfoError]
    g c1 x1 s1 c2 x2 u2 s2 p2 l
  show ?thesis by (simp add: getItem_def)
qed

subsection \<open>Logout\<close>

text \<open>
  C4: after \<open>logout\<close> no token is left in the session store. \<open>clearTokens\<close>
  removes the access token, the refresh token and the expiry, and not the ID token that
  \<open>storeTokens\<close> writes: a stored ID token is still there after \<open>logout\<close>.
\<close>

theorem logout_leaves_id_token:
  "getItem (logout session_granted) ''access_token'' = None \<and>
   getItem (logout session_granted) ''refresh_token'' = None \<and>
   getItem (logout session_granted) ''token_expires_at'' = None \<and>
   getItem (logout session_granted) ''id_token'' = Some ''idtok123''"
  by (simp add: logout_storage clearTokens_storage) (simp add: worlds getItem_def)

subsection \<open>Refresh\<close>

text \<open>
  C5: on a refused refresh the stored tokens are cleared and \<open>refreshToken\<close> fails
  with \<open>RefreshInvalid\<close>. The tokens are cleared and \<open>RefreshInvalid\<close> is thrown,
  inside the \<open>try\<close> block whose \<open>catch\<close> replaces it: the caller gets
  \<open>RefreshError\<close>, the error of a transport failure.
\<close>

theorem refreshToken_hides_RefreshInvalid:
  "fst (refresh_try (Failure ''Bad Request'' (Some invalid_grant)) session_refused) =
     Inl RefreshInvalid \<and>
   fst (refreshToken session_refused) = Inl RefreshError \<and>
   getItem (snd (refreshToken session_refused)) ''access_token'' = None \<and>
   getItem (snd (refreshToken session_refused)) ''refresh_token'' = None \<and>
   getItem (snd (refreshToken session_refused)) ''token_expires_at'' = None"
  by (simp add: worlds ops)

text \<open>
  C10: when the refresh request is rejected with no HTTP response, \<open>refreshToken\<close>
  fails and leaves the session store as it was; and an entry that \<open>refreshToken\<close>
  removes from the store was removed on a response of the provider that is not a
  success.
\<close>

theorem refreshToken_transport_failure:
  assumes "getStoredRefreshToken w = Some rt" and "rt \<noteq> []"
  shows "(fst (fetch_token w (refresh_request rt)) = Rejected \<longrightarrow>
            fst (refreshToken w) = Inl RefreshError \<and>
            storage (snd (refreshToken w)) = storage w) \<and>
         (getItem w k \<noteq> None \<and> getItem (snd (refreshToken w)) k = None \<longrightarrow>
            (\<exists>st e. fst (fetch_token w (refresh_request rt)) = Failure st e))"
proof -
  obtain rep w1 where f: "fetch_token w (refresh_request rt) = (rep, w1)"
    by (cases "fetch_token w (refresh_request rt)")
  have s1: "storage w1 = storage w" using fetch_token_frame(1) [of w "refresh_request rt"] f by simp
  have r: "refreshToken w = (rethrow RefreshError (fst (refresh_try rep w1)), snd (refresh_try rep w1))"
    using assms f by (simp add: refreshToken_def Let_def truthy_def String_of_def split: prod.splits)
  show ?thesis
  proof (cases rep)
    case Rejected
    with r f s1 show ?thesis by (auto simp: refresh_try_def rethrow_def getItem_def)
  next
    case (Success b)
    show ?thesis
    proof (cases b)
      case None
      with Success r f s1 show ?thesis by (auto simp: refresh_try_def rethrow_def getItem_def)
    next
      case (Some t)
      with Success r have rr: "refreshToken w = (Inr t, storeTokens w1 t)"
        by (simp add: refresh_try_def rethrow_def)
      have "getItem w1 k = getItem w k" using s1 by (simp add: getItem_def)
      with rr have "\<not> (getItem w k \<noteq> None \<and> getItem (snd (refreshToken w)) k = None)"
        using storeTokens_adds [of w1 t k] by auto
      moreover have "fst (fetch_token w (refresh_request rt)) \<noteq> Rejected"
        using f Success by simp
      ultimately show ?thesis by blast
    qed
  next
    case (Failure st e)
    with f show ?thesis by simp
  qed
qed

theorem refreshToken_transport_failure_witness:
  "getStoredRefreshToken session_unreachable = Some ''rt0'' \<and>
   fst (fetch_token session_unreachable (refresh_request ''rt0'')) = Rejected \<and>
   fst (refreshToken session_unreachable) = Inl RefreshError \<and>
   storage (snd (refreshToken session_unreachable)) = storage session_unreachable \<and>
   getStoredRefreshToken session_refused = Some ''rt0'' \<and>
   getItem session_refused ''access_token'' = Some ''at0'' \<and>
   getItem (snd (refreshToken session_refused)) ''access_token'' = None \<and>
   (\<exists>st e. fst (fetch_token session_refused (refresh_request ''rt0'')) = Failure st e)"
proof -
  have h1: "getStoredRefreshToken session_unreachable = Some ''rt0''"
    and h2: "fst (fetch_token session_unreachable (refresh_request ''rt0'')) = Rejected"
    and h3: "getStoredRefreshToken session_refused = Some ''rt0''"
    and h4: "getItem session_refused ''access_token'' = Some ''at0''"
    and h5: "getItem (snd (refreshToken session_refused)) ''access_token'' = None"
    by (simp_all add: worlds ops)
  have n: "''rt0'' \<noteq> []" by simp
  from refreshToken_transport_failure [OF h1 n, of "''access_token''"]
    refreshToken_transport_failure [OF h3 n, of "''access_token''"] h1 h2 h3 h4 h5
  show ?thesis by simp
qed

subsection \<open>Token exchange\<close>

text \<open>
  C6: on a refused exchange whose body has an error description, the caller gets a
  \<open>TokenExchangeFailed\<close> carrying the description. The error is built with the
  description and thrown inside the \<open>try\<close> block whose \<open>catch\<close> replaces it: the
  caller gets \<open>ExchangeError\<close>, whose message is fixed.
\<close>

theorem exchange_drops_description:
  "exchange_try (Failure ''Bad Request'' (Some invalid_grant)) =
     Inl (TokenExchangeFailed ''Code not valid'') \<and>
   fst (exchangeCodeForTokens callback_refused ''c1'') = Inl ExchangeError \<and>
   message ExchangeError = ''Failed to exchange authorization code for tokens''"
  by (simp add: worlds ops)

subsection \<open>Expiry\<close>

text \<open>
  C7: \<open>isTokenExpired\<close> is true when no expiry is stored; after tokens with
  \<open>expires_in = 300\<close> are stored at time \<open>T\<close>, it is false at \<open>T + 269 s\<close> and at
  \<open>T + 270 s\<close>, and true at \<open>T + 271 s\<close>.
\<close>

theorem isTokenExpired_buffer:
  "(getItem w ''token_expires_at'' = None \<longrightarrow> isTokenExpired w) \<and>
   (expires_in tokens = 300 \<longrightarrow>
      \<not> isTokenExpired ((storeTokens w tokens)\<lparr>now := now w + 269000\<rparr>) \<and>
      \<not> isTokenExpired ((storeTokens w tokens)\<lparr>now := now w + 270000\<rparr>) \<and>
      isTokenExpired ((storeTokens w tokens)\<lparr>now := now w + 271000\<rparr>))"
proof -
  have e: "\<And>t. getItem ((storeTokens w tokens)\<lparr>now := t\<rparr>) ''token_expires_at'' =
     Some (Number_toString (now w + expires_in tokens * 1000))"
    using expiry_storeTokens [of w tokens] by (simp add: getItem_def)
  show ?thesis
    by (simp add: isTokenExpired_def e parseInt_Number_toString Number_toString_not_Nil)
qed

theorem isTokenExpired_buffer_witness:
  "getItem unreachable ''token_expires_at'' = None \<and> isTokenExpired unreachable \<and>
   expires_in tokens0 = 300 \<and>
   \<not> isTokenExpired ((storeTokens unreachable tokens0)\<lparr>now := now unreachable + 269000\<rparr>) \<and>
   isTokenExpired ((storeTokens unreachable tokens0)\<lparr>now := now unreachable + 271000\<rparr>)"
proof -
  have h1: "getItem unreachable ''token_expires_at'' = None"
    by (simp add: unreachable_def getItem_def)
  have h2: "expires_in tokens0 = 300"
    by (simp add: tokens0_def)
  from isTokenExpired_buffer [of unreachable tokens0] h1 h2 show ?thesis by simp
qed

subsection \<open>The current user\<close>

text \<open>
  C8: \<open>getCurrentUser\<close> never rejects: in every world, whatever the provider
  answers, it resolves to a profile or to null. It resolves to null when no access
  token is stored (or an empty one), and when the token is expired and the refresh
  fails or leaves no access token.
\<close>

theorem getCurrentUser_never_throws:
  "(\<exists>r. fst (getCurrentUser w) = Inr r) \<and>
   (\<not> truthy (getStoredAccessToken w) \<longrightarrow> fst (getCurrentUser w) = Inr None) \<and>
   (isTokenExpired w \<and>
      ((\<exists>e. fst (refreshToken w) = Inl e) \<or>
       \<not> truthy (getStoredAccessToken (snd (refreshToken w))))
    \<longrightarrow> fst (getCurrentUser w) = Inr None)"
proof -
  have a: "\<exists>r. fst (getCurrentUser w) = Inr r"
    by (simp add: getCurrentUser_def split: prod.splits sum.splits)
  have b: "\<not> truthy (getStoredAccessToken w) \<Longrightarrow> fst (getCurrentUser w) = Inr None"
    by (simp add: getCurrentUser_def getCurrentUser_try_def)
  have c: "fst (getCurrentUser w) = Inr None"
    if x: "isTokenExpired w"
      and r: "(\<exists>e. fst (refreshToken w) = Inl e) \<or>
        \<not> truthy (getStoredAccessToken (snd (refreshToken w)))"
  proof (cases "truthy (getStoredAccessToken w)")
    case False
    then show ?thesis by (rule b)
  next
    case True
    obtain r1 w1 where rt: "refreshToken w = (r1, w1)" by (cases "refreshToken w")
    show ?thesis
    proof (cases r1)
      case (Inl e)
      with True x rt show ?thesis
        by (simp add: getCurrentUser_def getCurrentUser_try_def)
    next
      case (Inr t)
      with r rt have "\<not> truthy (getStoredAccessToken w1)" by simp
      with True x rt Inr show ?thesis
        by (simp add: getCurrentUser_def getCurrentUser_try_def getCurrentUser_fetch_def)
    qed
  qed
  from a b c show ?thesis by blast
qed

theorem getCurrentUser_never_throws_witness:
  "\<not> truthy (getStoredAccessToken unreachable) \<and>
   fst (getCurrentUser unreachable) = Inr None \<and>
   isTokenExpired session_refused \<and>
   fst (refreshToken session_refused) = Inl RefreshError \<and>
   fst (getCurrentUser session_refused) = Inr None"
proof -
  have h1: "\<not> truthy (getStoredAccessToken unreachable)"
    by (simp add: worlds ops)
  have h2: "isTokenExpired session_refused"
    by (simp add: worlds ops parsing)
  have h3: "fst (refreshToken session_refused) = Inl RefreshError"
    by (simp add: worlds ops)
  from getCurrentUser_never_throws [of unreachable] getCurrentUser_never_throws [of session_refused]
    h1 h2 h3
  show ?thesis by simp
qed

subsection \<open>The code verifier\<close>

text \<open>
  C9, as the specification states it: for every length of at least 1 the verifier has
  that length. \<open>crypto.getRandomValues\<close> refuses an array of more than 65536 bytes:
  for the length 65537 no verifier is produced.
\<close>

theorem generateCodeVerifier_quota:
  "generateCodeVerifier (\<lambda>i. 0) 65537 = Inl QuotaExceededError"
  by (simp add: generateCodeVerifier_def getRandomValues_def)

text \<open>
  C9, amended: for every integer length from 1 to 65536 \<open>generateCodeVerifier\<close>
  returns a string of that length whose characters are all unreserved; with no argument
  the length is 128.
\<close>

theorem generateCodeVerifier_unreserved:
  "(1 \<le> len \<and> len \<le> 65536 \<longrightarrow>
      (\<exists>s. generateCodeVerifier rng len = Inr s \<and> length s = len \<and> (\<forall>c\<in>set s. unreserved c))) \<and>
   (\<exists>s. generateCodeVerifier_default rng = Inr s \<and> length s = 128 \<and> (\<forall>c\<in>set s. unreserved c))"
proof -
  have "\<exists>s. generateCodeVerifier rng n = Inr s \<and> length s = n \<and> (\<forall>c\<in>set s. unreserved c)"
    if "n \<le> 65536" for n
    using that verifier_loop_length [of 0 n "map rng [0..<n]" "[]"]
      verifier_loop_unreserved [of "[]" 0 n "map rng [0..<n]"]
    by (simp add: generateCodeVerifier_def getRandomValues_def)
  then show ?thesis by (simp add: generateCodeVerifier_default_def)
qed

theorem generateCodeVerifier_unreserved_witness:
  "(1::nat) \<le> 5 \<and> (5::nat) \<le> 65536 \<and>
   generateCodeVerifier (\<lambda>i. of_nat (i * 67)) 5 = Inr ''ABCDM'' \<and>
   (\<exists>s. generateCodeVerifier (\<lambda>i. of_nat (i * 67)) 5 = Inr s \<and> length s = 5 \<and>
      (\<forall>c\<in>set s. unreserved c))"
proof -
  have v: "generateCodeVerifier (\<lambda>i. of_nat (i * 67)) 5 = Inr ''ABCDM''"
    by (simp add: generateCodeVerifier_def getRandomValues_def verifier_loop.simps charAt_def
        charset_def upt_rec [of _ "numeral _"] nth_Cons')
  from generateCodeVerifier_unreserved [of 5 "\<lambda>i. of_nat (i * 67)"] v show ?thesis by simp
qed

end
